theory Spec2Isabelle
  imports Main "HOL-Library.Multiset"
begin

section \<open>Localhost dashboard: service registry, port prober, lifecycle controller\<close>

text \<open>
  The source holds two programs: the tool-call (MCP) server, lines 1-375 of
  \<^verbatim>\<open>mcp-server.js\<close>, and the HTTP server, lines 376-639. Functions of the tool-call
  server keep their names; functions of the HTTP server, which reuse the same names, carry
  the prefix \<open>http_\<close>.

  Everything the code obtains from outside is an explicit input: the contents of
  \<^verbatim>\<open>services.json\<close> (\<open>config_file\<close>), and the operating system as the code sees it
  (\<open>os_state\<close>). Everything the code does to the outside is returned as a list of actions,
  in the order in which the code issues them.
\<close>

subsection \<open>JavaScript string primitives\<close>

text \<open>
  \<^verbatim>\<open>Number.prototype.toString\<close> on an integer: decimal digits, a leading minus sign
  for a negative number. Ports are JSON numbers; only integers are modelled.
\<close>

definition digit_char :: "nat \<Rightarrow> char" where
  "digit_char d = ''0123456789'' ! d"

function string_of_nat :: "nat \<Rightarrow> string" where
  "string_of_nat n =
     (if n < 10 then [digit_char n]
      else string_of_nat (n div 10) @ [digit_char (n mod 10)])"
  by pat_completeness auto
termination
  by (relation "measure id") auto

definition toString :: "int \<Rightarrow> string" where
  "toString i =
     (if i < 0 then CHR ''-'' # string_of_nat (nat (- i)) else string_of_nat (nat i))"

text \<open>
  \<^verbatim>\<open>s.split(sep)\<close> for a one-character separator: the segments between separators,
  empty segments included; the result is never the empty array.
\<close>

fun split :: "string \<Rightarrow> char \<Rightarrow> string list" where
  "split [] sep = [[]]"
| "split (c # cs) sep =
     (if c = sep then [] # split cs sep
      else (case split cs sep of [] \<Rightarrow> [[c]] | w # ws \<Rightarrow> (c # w) # ws))"

text \<open>
  \<^verbatim>\<open>s.trim()\<close>: white space is removed at both ends. The ASCII white space of
  ECMAScript is tab, line feed, vertical tab, form feed, carriage return and space (the
  output of the inspection utility is ASCII).
\<close>

definition isSpace :: "char \<Rightarrow> bool" where
  "isSpace c = (c \<in> set [CHR 0x09, CHR 0x0A, CHR 0x0B, CHR 0x0C, CHR 0x0D, CHR 0x20])"

definition isAscii :: "char \<Rightarrow> bool" where
  "isAscii c = (\<not> digit7 c)"

definition trim :: "string \<Rightarrow> string" where
  "trim s = rev (dropWhile isSpace (rev (dropWhile isSpace s)))"

subsection \<open>Data model\<close>

text \<open>
  A descriptor of \<^verbatim>\<open>services.json\<close>. The values are typed as the programs use them: the
  port is an integer, the texts are strings, and only \<^verbatim>\<open>github\<close> may be absent.
\<close>

record service =
  name :: string
  port :: int
  path :: string
  startCmd :: string
  type :: string
  github :: "string option"

text \<open>The object built by \<^verbatim>\<open>getAllServicesStatus\<close>: the descriptor's fields, joined with the probe.\<close>

record service_view = service +
  running :: bool
  pid :: "string option"
  url :: "string option"

text \<open>What the callback of \<^verbatim>\<open>exec\<close> receives: the error argument and the standard output.\<close>

record exec_result =
  error :: "string option"
  stdout :: string

text \<open>The object \<^verbatim>\<open>checkPort\<close> resolves to; \<open>None\<close> is \<^verbatim>\<open>null\<close> or an absent key.\<close>

record port_status =
  running :: bool
  pid :: "string option"

text \<open>The arguments of \<^verbatim>\<open>spawn(command, args, options)\<close>.\<close>

record spawn_request =
  command :: string
  args :: "string list"
  cwd :: string
  shell :: bool
  detached :: bool
  stdio :: "string list"
  env :: "string \<rightharpoonup> string"

text \<open>
  The outcome of a call of \<^verbatim>\<open>spawn\<close>: the exception, if the call throws (as it does
  for an empty command); otherwise the child process handle, with its \<^verbatim>\<open>pid\<close> and the
  \<^verbatim>\<open>'error'\<close> event, if one is emitted (as it is when the shell cannot be started in
  the working directory).
\<close>

record child =
  child_pid :: "nat option"
  thrown :: "string option"
  spawn_error :: "string option"

record os_state =
  home :: string
  process_env :: "string \<rightharpoonup> string"
  existsSync :: "string \<Rightarrow> bool"
  exec :: "string \<Rightarrow> exec_result"
  spawn :: "spawn_request \<Rightarrow> child"
  now :: string

record config =
  services :: "service list"

text \<open>
  Reading \<^verbatim>\<open>services.json\<close>: \<^verbatim>\<open>readFileSync\<close> throws, \<^verbatim>\<open>JSON.parse\<close>
  throws, or the document is obtained. The string is the message of the exception. A
  document that parses has the shape the programs write: an object with a \<^verbatim>\<open>services\<close>
  array of descriptors.
\<close>

datatype config_file = Unreadable string | Malformed string | Document config

text \<open>
  The calls the code issues: \<^verbatim>\<open>exec\<close> of a command line, \<^verbatim>\<open>spawn\<close> and
  \<^verbatim>\<open>setTimeout\<close>.
\<close>

datatype action = Exec string | Spawn spawn_request | SetTimeout nat

text \<open>The calls of \<^verbatim>\<open>spawn\<close> in a list of actions.\<close>

fun spawns :: "action list \<Rightarrow> spawn_request list" where
  "spawns [] = []"
| "spawns (Spawn r # acts) = r # spawns acts"
| "spawns (a # acts) = spawns acts"

text \<open>
  The result objects of the lifecycle controller:
  \<^verbatim>\<open>{success: false, error}\<close>,
  \<^verbatim>\<open>{success: true, service, port, started, message}\<close> and
  \<^verbatim>\<open>{success: true, message}\<close>. The promise of \<^verbatim>\<open>startService\<close> has two more
  outcomes, since lines 97-106 have no handler around \<^verbatim>\<open>spawn\<close> and no listener for
  the \<^verbatim>\<open>'error'\<close> event of the child: \<open>Rejected\<close>, when \<^verbatim>\<open>spawn\<close> throws in the
  executor of the promise, and \<open>Crashed\<close>, when the child emits \<^verbatim>\<open>'error'\<close>, which
  is then an uncaught exception that ends the process before the timer fires.
\<close>

datatype result =
    Failure string
  | StartSuccess string int bool string
  | StopSuccess string
  | Rejected string
  | Crashed string

subsection \<open>Tool-call server: registry and prober\<close>

definition loadServices :: "config_file \<Rightarrow> service list" where
  "loadServices cfg =
     (case cfg of Document c \<Rightarrow> services c | Unreadable e \<Rightarrow> [] | Malformed e \<Rightarrow> [])"

text \<open>The lookup \<^verbatim>\<open>services.find(s => s.port === port)\<close> of lines 81, 269, 305 and 524.\<close>

definition findByPort :: "service list \<Rightarrow> int \<Rightarrow> service option" where
  "findByPort svcs p = find (\<lambda>s. port s = p) svcs"

text \<open>
  \<^verbatim>\<open>p.replace(/^~/, HOME)\<close>: a leading tilde is replaced by the home directory \<open>h\<close>
  (taken literally: a home directory has no \<^verbatim>\<open>$\<close> replacement pattern).
\<close>

definition expandPath :: "string \<Rightarrow> string \<Rightarrow> string" where
  "expandPath h p = (case p of [] \<Rightarrow> [] | c # rest \<Rightarrow> if c = CHR ''~'' then h @ rest else p)"

definition lsof_cmd :: "int \<Rightarrow> string" where
  "lsof_cmd p = ''lsof -i :'' @ toString p @ '' -t''"

definition kill_cmd :: "int \<Rightarrow> string" where
  "kill_cmd p = ''lsof -i :'' @ toString p @ '' -t | xargs kill -9 2>/dev/null''"

text \<open>The callback of \<^verbatim>\<open>checkPort\<close> (lines 47-52): the error argument is not read.\<close>

definition checkPort_callback :: "exec_result \<Rightarrow> port_status" where
  "checkPort_callback r =
     \<lparr>running = (trim (stdout r) \<noteq> []),
      pid = (case split (trim (stdout r)) (CHR 0x0A) of
               [] \<Rightarrow> None
             | l # ls \<Rightarrow> if l = [] then None else Some l)\<rparr>"

definition checkPort :: "os_state \<Rightarrow> int \<Rightarrow> port_status \<times> action list" where
  "checkPort os p = (checkPort_callback (exec os (lsof_cmd p)), [Exec (lsof_cmd p)])"

definition getAllServicesStatus :: "config_file \<Rightarrow> os_state \<Rightarrow> service_view list \<times> action list" where
  "getAllServicesStatus cfg os =
     (map (\<lambda>s. let status = fst (checkPort os (port s)) in
            \<lparr>name = name s, port = port s, path = path s, startCmd = startCmd s,
             type = type s,
             github = (case github s of None \<Rightarrow> None
                       | Some g \<Rightarrow> if g = [] then None else Some g),
             service_view.running = running status,
             service_view.pid = pid status,
             url = (if running status then Some (''http://localhost:'' @ toString (port s))
                    else None)\<rparr>)
        (loadServices cfg),
      concat (map (\<lambda>s. snd (checkPort os (port s))) (loadServices cfg)))"

subsection \<open>Tool-call server: lifecycle controller\<close>

text \<open>
  \<open>os\<close> is the operating system when \<^verbatim>\<open>startService\<close> is called, \<open>later\<close> the
  operating system when the timer of 2000 ms fires.
\<close>

definition startService ::
  "config_file \<Rightarrow> os_state \<Rightarrow> os_state \<Rightarrow> int \<Rightarrow> result \<times> action list" where
  "startService cfg os later p =
     (case findByPort (loadServices cfg) p of
        None \<Rightarrow> (Failure (''No service configured for port '' @ toString p), [])
      | Some srv \<Rightarrow>
          let dir = expandPath (home os) (path srv) in
          if \<not> existsSync os dir then (Failure (''Directory not found: '' @ dir), [])
          else
            let status = fst (checkPort os p); log1 = snd (checkPort os p) in
            if running status then
              (Failure (''Port '' @ toString p @ '' already in use (pid: ''
                        @ (case pid status of None \<Rightarrow> ''null'' | Some q \<Rightarrow> q) @ '')''),
               log1)
            else
              let ws = split (startCmd srv) (CHR '' '');
                  req = \<lparr>command = (case ws of [] \<Rightarrow> [] | c # as \<Rightarrow> c),
                         args = (case ws of [] \<Rightarrow> [] | c # as \<Rightarrow> as),
                         cwd = dir, shell = True, detached = True,
                         stdio = [''ignore'', ''ignore'', ''ignore''],
                         env = (process_env os)(''PORT'' \<mapsto> toString p)\<rparr>;
                  ch = spawn os req;
                  newStatus = fst (checkPort later p);
                  log2 = snd (checkPort later p)
              in (case thrown ch of
                    Some e \<Rightarrow> (Rejected e, log1 @ [Spawn req])
                  | None \<Rightarrow>
                      (case spawn_error ch of
                         Some e \<Rightarrow> (Crashed e, log1 @ [Spawn req, SetTimeout 2000])
                       | None \<Rightarrow>
                           (StartSuccess (name srv) p (running newStatus)
                              (if running newStatus
                               then ''Started '' @ name srv @ '' on port '' @ toString p
                               else ''Start command sent, but service may still be initializing''),
                            log1 @ [Spawn req, SetTimeout 2000] @ log2))))"

definition stopService :: "os_state \<Rightarrow> int \<Rightarrow> result \<times> action list" where
  "stopService os p =
     (let status = fst (checkPort os p); log1 = snd (checkPort os p) in
      if \<not> running status then (Failure (''Nothing running on port '' @ toString p), log1)
      else (StopSuccess (''Stopped service on port '' @ toString p), log1 @ [Exec (kill_cmd p)]))"

subsection \<open>Tool-call server: the tool handlers\<close>

text \<open>
  The handlers of lines 242-352 turn the values below into text; the values themselves are
  modelled, their rendering is not. A tool call that raises is caught at line 360 and
  answered with the message of the exception; with well-typed arguments the one call that
  raises is \<^verbatim>\<open>start_service\<close>, when the promise of \<^verbatim>\<open>startService\<close> rejects. When
  the process ends there is no reply.
\<close>

text \<open>
  \<^verbatim>\<open>list_services\<close>: the label \<^verbatim>\<open>args?.filter || 'all'\<close> and the narrowed list, whose
  length is the reported total.
\<close>

definition list_services ::
  "config_file \<Rightarrow> os_state \<Rightarrow> string option \<Rightarrow> (string \<times> service_view list) \<times> action list" where
  "list_services cfg os arg =
     (let svcs = fst (getAllServicesStatus cfg os);
          flt = (case arg of None \<Rightarrow> ''all'' | Some f \<Rightarrow> if f = [] then ''all'' else f);
          narrowed =
            (if flt = ''running'' then filter (\<lambda>s. service_view.running s) svcs
             else if flt = ''stopped'' then filter (\<lambda>s. \<not> service_view.running s) svcs
             else if flt \<in> set [''frontend'', ''backend'', ''api'']
               then filter (\<lambda>s. type s = flt) svcs
             else svcs)
      in ((flt, narrowed), snd (getAllServicesStatus cfg os)))"

text \<open>\<^verbatim>\<open>check_port\<close>: the probe, and the name of the configured service, if any.\<close>

definition check_port ::
  "config_file \<Rightarrow> os_state \<Rightarrow> int \<Rightarrow> (port_status \<times> string option) \<times> action list" where
  "check_port cfg os p =
     ((fst (checkPort os p), map_option name (findByPort (loadServices cfg) p)),
      snd (checkPort os p))"

text \<open>\<^verbatim>\<open>get_service_info\<close>: the message of line 311, or the descriptor with its probe.\<close>

definition get_service_info ::
  "config_file \<Rightarrow> os_state \<Rightarrow> int \<Rightarrow> (string + service \<times> port_status) \<times> action list" where
  "get_service_info cfg os p =
     (case findByPort (loadServices cfg) p of
        None \<Rightarrow> (Inl (''No service configured for port '' @ toString p), [])
      | Some srv \<Rightarrow> (Inr (srv, fst (checkPort os p)), snd (checkPort os p)))"

text \<open>\<^verbatim>\<open>quick_status\<close>: the running views, the stopped views and the number configured.\<close>

definition quick_status ::
  "config_file \<Rightarrow> os_state \<Rightarrow> (service_view list \<times> service_view list \<times> nat) \<times> action list" where
  "quick_status cfg os =
     (let svcs = fst (getAllServicesStatus cfg os) in
      ((filter (\<lambda>s. service_view.running s) svcs,
        filter (\<lambda>s. \<not> service_view.running s) svcs,
        length svcs),
       snd (getAllServicesStatus cfg os)))"

datatype tool_call =
    List_services "string option"
  | Check_port int
  | Start_service int
  | Stop_service int
  | Get_service_info int
  | Quick_status
  | Other_tool string

datatype tool_reply =
    Listing string "service_view list"
  | Port_report port_status "string option"
  | Outcome result
  | Info "string + service \<times> port_status"
  | Summary "service_view list" "service_view list" nat
  | Unknown_tool string
  | Error_reply string
  | No_reply string

definition call_tool ::
  "config_file \<Rightarrow> os_state \<Rightarrow> os_state \<Rightarrow> tool_call \<Rightarrow> tool_reply \<times> action list" where
  "call_tool cfg os later call =
     (case call of
        List_services arg \<Rightarrow>
          (Listing (fst (fst (list_services cfg os arg))) (snd (fst (list_services cfg os arg))),
           snd (list_services cfg os arg))
      | Check_port p \<Rightarrow>
          (Port_report (fst (fst (check_port cfg os p))) (snd (fst (check_port cfg os p))),
           snd (check_port cfg os p))
      | Start_service p \<Rightarrow>
          (case fst (startService cfg os later p) of
             Rejected e \<Rightarrow> (Error_reply e, snd (startService cfg os later p))
           | Crashed e \<Rightarrow> (No_reply e, snd (startService cfg os later p))
           | Failure e \<Rightarrow> (Outcome (Failure e), snd (startService cfg os later p))
           | StartSuccess n q b m \<Rightarrow>
               (Outcome (StartSuccess n q b m), snd (startService cfg os later p))
           | StopSuccess m \<Rightarrow> (Outcome (StopSuccess m), snd (startService cfg os later p)))
      | Stop_service p \<Rightarrow> (Outcome (fst (stopService os p)), snd (stopService os p))
      | Get_service_info p \<Rightarrow>
          (Info (fst (get_service_info cfg os p)), snd (get_service_info cfg os p))
      | Quick_status \<Rightarrow>
          (Summary (fst (fst (quick_status cfg os))) (fst (snd (fst (quick_status cfg os))))
             (snd (snd (fst (quick_status cfg os)))),
           snd (quick_status cfg os))
      | Other_tool n \<Rightarrow> (Unknown_tool n, []))"

subsection \<open>HTTP server\<close>

text \<open>\<^verbatim>\<open>loadServices\<close> of the HTTP server (line 389) has no handler: the exception escapes.\<close>

definition http_loadServices :: "config_file \<Rightarrow> string + service list" where
  "http_loadServices cfg =
     (case cfg of Document c \<Rightarrow> Inr (services c) | Unreadable e \<Rightarrow> Inl e | Malformed e \<Rightarrow> Inl e)"

definition http_checkPort_callback :: "exec_result \<Rightarrow> port_status" where
  "http_checkPort_callback r =
     (if trim (stdout r) \<noteq> []
      then \<lparr>running = True,
            pid = (case split (trim (stdout r)) (CHR 0x0A) of [] \<Rightarrow> None | l # ls \<Rightarrow> Some l)\<rparr>
      else \<lparr>running = False, pid = None\<rparr>)"

definition http_checkPort :: "os_state \<Rightarrow> int \<Rightarrow> port_status \<times> action list" where
  "http_checkPort os p = (http_checkPort_callback (exec os (lsof_cmd p)), [Exec (lsof_cmd p)])"

text \<open>
  The map \<^verbatim>\<open>runningProcesses\<close>: port to pid, name and start time.
\<close>

type_synonym processes = "int \<rightharpoonup> nat option \<times> string \<times> string"

text \<open>
  \<^verbatim>\<open>startService(service)\<close> of the HTTP server: \<open>Inl\<close> is the message of the rejection,
  \<open>Inr\<close> the pid of \<^verbatim>\<open>{success: true, pid}\<close>. When \<^verbatim>\<open>spawn\<close> throws, the
  executor of the promise rejects with the exception. An \<^verbatim>\<open>'error'\<close> event of the child
  is emitted before the timer of 1000 ms fires, so the rejection settles the promise.
\<close>

definition http_startService ::
  "os_state \<Rightarrow> processes \<Rightarrow> service \<Rightarrow> (string + nat option) \<times> processes \<times> action list" where
  "http_startService os procs srv =
     (let dir = expandPath (home os) (path srv) in
      if \<not> existsSync os dir then (Inl (''Directory not found: '' @ dir), procs, [])
      else
        let ws = split (startCmd srv) (CHR '' '');
            req = \<lparr>command = (case ws of [] \<Rightarrow> [] | c # as \<Rightarrow> c),
                   args = (case ws of [] \<Rightarrow> [] | c # as \<Rightarrow> as),
                   cwd = dir, shell = True, detached = True,
                   stdio = [''ignore'', ''pipe'', ''pipe''],
                   env = (process_env os)(''PORT'' \<mapsto> toString (port srv))\<rparr>;
            ch = spawn os req;
            procs' = procs(port srv \<mapsto> (child_pid ch, name srv, now os))
        in (case thrown ch of
              Some e \<Rightarrow> (Inl e, procs, [Spawn req])
            | None \<Rightarrow>
                (case spawn_error ch of
                   Some err \<Rightarrow> (Inl err, procs', [Spawn req, SetTimeout 1000])
                 | None \<Rightarrow> (Inr (child_pid ch), procs', [Spawn req, SetTimeout 1000]))))"

definition http_stopService :: "os_state \<Rightarrow> processes \<Rightarrow> int \<Rightarrow> processes \<times> action list" where
  "http_stopService os procs p = (procs(p := None), [Exec (kill_cmd p)])"

datatype body = ErrorBody string | SuccessBody | StartedBody "nat option"

datatype http_reply = Response nat body | Uncaught string

text \<open>\<^verbatim>\<open>POST /api/start/{port}\<close>, lines 521-541; \<open>p\<close> is the parsed port.\<close>

definition post_start ::
  "config_file \<Rightarrow> os_state \<Rightarrow> processes \<Rightarrow> int \<Rightarrow> http_reply \<times> processes \<times> action list" where
  "post_start cfg os procs p =
     (case http_loadServices cfg of
        Inl e \<Rightarrow> (Uncaught e, procs, [])
      | Inr svcs \<Rightarrow>
          (case findByPort svcs p of
             None \<Rightarrow> (Response 404 (ErrorBody ''Service not found''), procs, [])
           | Some srv \<Rightarrow>
               (case fst (http_startService os procs srv) of
                  Inl err \<Rightarrow> (Response 500 (ErrorBody err), snd (http_startService os procs srv))
                | Inr child_id \<Rightarrow>
                    (Response 200 (StartedBody child_id), snd (http_startService os procs srv)))))"

text \<open>\<^verbatim>\<open>POST /api/stop/{port}\<close>, lines 544-550.\<close>

definition post_stop :: "os_state \<Rightarrow> processes \<Rightarrow> int \<Rightarrow> http_reply \<times> processes \<times> action list" where
  "post_stop os procs p = (Response 200 SuccessBody, http_stopService os procs p)"

text \<open>
  \<^verbatim>\<open>DELETE /api/services/{port}\<close>, lines 574-583: the reply and the configuration file
  afterwards. \<open>wr\<close> is the exception of \<^verbatim>\<open>writeFileSync\<close>, if it throws.
\<close>

definition delete_service :: "config_file \<Rightarrow> string option \<Rightarrow> int \<Rightarrow> http_reply \<times> config_file" where
  "delete_service cfg wr p =
     (case cfg of
        Unreadable e \<Rightarrow> (Uncaught e, cfg)
      | Malformed e \<Rightarrow> (Uncaught e, cfg)
      | Document c \<Rightarrow>
          (case wr of
             Some e \<Rightarrow> (Uncaught e, cfg)
           | None \<Rightarrow>
               (Response 200 SuccessBody,
                Document (c\<lparr>services := filter (\<lambda>s. port s \<noteq> p) (services c)\<rparr>))))"

subsection \<open>Sample inputs\<close>

definition api_service :: service where
  "api_service =
     \<lparr>name = ''api'', port = 4000, path = ''~/proj'', startCmd = ''node server.js'',
      type = ''backend'', github = None\<rparr>"

definition web_service :: service where
  "web_service =
     \<lparr>name = ''web'', port = 3000, path = ''~/web'', startCmd = ''npm run dev'',
      type = ''frontend'', github = Some ''https://github.com/example/web''\<rparr>"

definition shadow_service :: service where
  "shadow_service =
     \<lparr>name = ''shadow'', port = 4000, path = ''/srv/shadow'', startCmd = ''python3 -m http.server'',
      type = ''database'', github = None\<rparr>"

definition api_config :: config_file where
  "api_config = Document \<lparr>services = [api_service]\<rparr>"

definition fleet_config :: config_file where
  "fleet_config = Document \<lparr>services = [web_service, api_service, shadow_service]\<rparr>"

definition no_output :: exec_result where
  "no_output = \<lparr>error = Some ''Command failed: exit code 1'', stdout = []\<rparr>"

definition one_owner :: exec_result where
  "one_owner = \<lparr>error = None, stdout = ''4242'' @ [CHR 0x0A]\<rparr>"

definition failed_with_owner :: exec_result where
  "failed_with_owner =
     \<lparr>error = Some ''Command failed: lsof -i :4000 -t'', stdout = ''9'' @ [CHR 0x0A]\<rparr>"

definition a_child :: child where
  "a_child = \<lparr>child_pid = Some 777, thrown = None, spawn_error = None\<rparr>"

definition failed_child :: child where
  "failed_child =
     \<lparr>child_pid = None, thrown = None, spawn_error = Some ''spawn /bin/sh ENOTDIR''\<rparr>"

definition every_path :: "string \<Rightarrow> bool" where
  "every_path d = True"

definition no_path :: "string \<Rightarrow> bool" where
  "no_path d = False"

definition always :: "'b \<Rightarrow> 'a \<Rightarrow> 'b" where
  "always r c = r"

text \<open>No port has a listener, every directory exists.\<close>

definition quiet_os :: os_state where
  "quiet_os =
     \<lparr>home = ''/home/dev'', process_env = Map.empty, existsSync = every_path,
      exec = always no_output, spawn = always a_child, now = ''2024-01-01T00:00:00.000Z''\<rparr>"

text \<open>As \<open>quiet_os\<close>, but the inspection command exits without an error.\<close>

definition clean_os :: os_state where
  "clean_os = quiet_os\<lparr>exec := always \<lparr>error = None, stdout = []\<rparr>\<rparr>"

definition no_processes :: processes where
  "no_processes = Map.empty"

text \<open>Every port has the listener 4242, every directory exists.\<close>

definition busy_os :: os_state where
  "busy_os = quiet_os\<lparr>exec := always one_owner\<rparr>"

text \<open>As \<open>quiet_os\<close>, but the inspection command fails after it has printed the owner 9.\<close>

definition flaky_os :: os_state where
  "flaky_os = quiet_os\<lparr>exec := always failed_with_owner\<rparr>"

text \<open>As \<open>quiet_os\<close>, but every child emits an \<^verbatim>\<open>'error'\<close> event.\<close>

definition jammed_os :: os_state where
  "jammed_os = quiet_os\<lparr>spawn := always failed_child\<rparr>"

text \<open>The call of \<^verbatim>\<open>spawn\<close> for \<open>api_service\<close>, on the tool-call server.\<close>

definition api_launch :: "os_state \<Rightarrow> spawn_request" where
  "api_launch os =
     \<lparr>command = ''node'', args = [''server.js''], cwd = home os @ ''/proj'',
      shell = True, detached = True, stdio = [''ignore'', ''ignore'', ''ignore''],
      env = (process_env os)(''PORT'' \<mapsto> ''4000'')\<rparr>"

text \<open>Every port has the listener 4242, no directory exists.\<close>

definition walled_os :: os_state where
  "walled_os = busy_os\<lparr>existsSync := no_path\<rparr>"

text \<open>No port has a listener, no directory exists.\<close>

definition bare_os :: os_state where
  "bare_os = quiet_os\<lparr>existsSync := no_path\<rparr>"

section \<open>Properties\<close>

subsection \<open>Strings\<close>

lemma split_head: "\<exists>ls. split s c = takeWhile (\<lambda>x. x \<noteq> c) s # ls"
proof (induction s)
  case Nil
  show ?case by simp
next
  case (Cons a s)
  then obtain ls where "split s c = takeWhile (\<lambda>x. x \<noteq> c) s # ls" by blast
  then show ?case by simp
qed

lemma split_not_Nil: "split s c \<noteq> []"
  using split_head [of s c] by auto

lemma isSpace_newline: "isSpace (CHR 0x0A)"
  by (simp add: isSpace_def)

lemma trim_blank: "trim s = [] \<longleftrightarrow> (\<forall>c\<in>set s. isSpace c)"
proof
  assume "trim s = []"
  then have "\<forall>c\<in>set (dropWhile isSpace s). isSpace c"
    by (simp add: trim_def)
  moreover have "\<forall>c\<in>set (takeWhile isSpace s). isSpace c"
    by (auto dest: set_takeWhileD)
  ultimately have "\<forall>c\<in>set (takeWhile isSpace s @ dropWhile isSpace s). isSpace c"
    by (simp only: set_append ball_Un)
  then show "\<forall>c\<in>set s. isSpace c" by simp
next
  assume "\<forall>c\<in>set s. isSpace c"
  then have blank: "dropWhile isSpace s = []" by simp
  show "trim s = []" unfolding trim_def blank by simp
qed

lemma dropWhile_rev_solid:
  assumes "\<forall>c\<in>set p. \<not> P c"
  shows "dropWhile P (rev p) = rev p"
  using assms by (cases p rule: rev_cases) simp_all

lemma dropWhile_solid:
  assumes "p \<noteq> []" "\<forall>c\<in>set p. \<not> P c"
  shows "dropWhile P (p @ t) = p @ t"
  using assms by (cases p) simp_all

lemma trim_first_line:
  assumes "p \<noteq> []" and "\<forall>c\<in>set p. \<not> isSpace c"
  shows "\<exists>t. trim (p @ CHR 0x0A # rest) = p @ t \<and> (t = [] \<or> hd t = CHR 0x0A)"
proof -
  have front: "dropWhile isSpace (p @ CHR 0x0A # rest) = p @ CHR 0x0A # rest"
    using assms by (rule dropWhile_solid)
  have solid: "dropWhile isSpace (rev p) = rev p"
    using assms(2) by (rule dropWhile_rev_solid)
  have shape: "rev (p @ CHR 0x0A # rest) = rev rest @ CHR 0x0A # rev p"
    by simp
  show ?thesis
  proof (cases "\<forall>c\<in>set rest. isSpace c")
    case True
    then have "dropWhile isSpace (rev rest @ CHR 0x0A # rev p) = dropWhile isSpace (CHR 0x0A # rev p)"
      by (intro dropWhile_append2) simp
    also have "\<dots> = rev p"
      using solid isSpace_newline by simp
    finally have "trim (p @ CHR 0x0A # rest) = p @ []"
      unfolding trim_def front shape by simp
    then show ?thesis by blast
  next
    case False
    then obtain x where "x \<in> set (rev rest)" "\<not> isSpace x" by auto
    then have "dropWhile isSpace (rev rest @ CHR 0x0A # rev p)
               = dropWhile isSpace (rev rest) @ CHR 0x0A # rev p"
      by (rule dropWhile_append1)
    then have "trim (p @ CHR 0x0A # rest) = p @ (CHR 0x0A # rev (dropWhile isSpace (rev rest)))"
      unfolding trim_def front shape by simp
    moreover have "hd (CHR 0x0A # rev (dropWhile isSpace (rev rest))) = CHR 0x0A" by simp
    ultimately show ?thesis by blast
  qed
qed

lemma first_line:
  assumes "\<forall>c\<in>set p. \<not> isSpace c" and "t = [] \<or> hd t = CHR 0x0A"
  shows "takeWhile (\<lambda>x. x \<noteq> CHR 0x0A) (p @ t) = p"
proof -
  have all: "\<forall>c\<in>set p. c \<noteq> CHR 0x0A" using assms(1) isSpace_newline by blast
  show ?thesis
  proof (cases t)
    case Nil
    with all show ?thesis by simp
  next
    case (Cons a l)
    with assms(2) have "t = CHR 0x0A # l" by simp
    moreover have "takeWhile (\<lambda>x. x \<noteq> CHR 0x0A) (p @ CHR 0x0A # l) = takeWhile (\<lambda>x. x \<noteq> CHR 0x0A) p"
      by (rule takeWhile_tail) simp
    ultimately show ?thesis using all by simp
  qed
qed

lemma owners_output:
  "concat (map (\<lambda>q. q @ [c]) (p # ps)) = p @ c # concat (map (\<lambda>q. q @ [c]) ps)"
  by (simp only: list.map concat.simps append_assoc append.simps)

lemma trim_prefix: "\<exists>w. dropWhile isSpace s = trim s @ w"
proof -
  have "rev (takeWhile isSpace (rev (dropWhile isSpace s)) @ dropWhile isSpace (rev (dropWhile isSpace s)))
        = dropWhile isSpace s"
    by (simp only: takeWhile_dropWhile_id rev_rev_ident)
  then have "dropWhile isSpace s = trim s @ rev (takeWhile isSpace (rev (dropWhile isSpace s)))"
    by (simp only: trim_def rev_append)
  then show ?thesis by blast
qed

lemma trim_starts_solid:
  assumes "trim s \<noteq> []"
  shows "\<not> isSpace (hd (trim s))"
proof -
  obtain w where w: "dropWhile isSpace s = trim s @ w" using trim_prefix by blast
  with assms have ne: "dropWhile isSpace s \<noteq> []" by simp
  from w assms have "hd (dropWhile isSpace s) = hd (trim s)" by simp
  with hd_dropWhile [OF ne] show ?thesis by simp
qed

lemma toString_4000: "toString 4000 = ''4000''"
  by (simp add: toString_def digit_char_def)

subsection \<open>Probes and logs\<close>

lemma blank_status:
  assumes "\<forall>c\<in>set (stdout r). isSpace c"
  shows "checkPort_callback r = \<lparr>running = False, pid = None\<rparr>"
    and "http_checkPort_callback r = \<lparr>running = False, pid = None\<rparr>"
proof -
  from assms have "trim (stdout r) = []" by (simp only: trim_blank)
  then show "checkPort_callback r = \<lparr>running = False, pid = None\<rparr>"
    and "http_checkPort_callback r = \<lparr>running = False, pid = None\<rparr>"
    by (simp_all add: checkPort_callback_def http_checkPort_callback_def)
qed

lemma owner_status:
  assumes "q \<noteq> []" and "\<forall>c\<in>set q. \<not> isSpace c"
    and "stdout r = concat (map (\<lambda>w. w @ [CHR 0x0A]) (q # qs))"
  shows "checkPort_callback r = \<lparr>running = True, pid = Some q\<rparr>"
    and "http_checkPort_callback r = \<lparr>running = True, pid = Some q\<rparr>"
proof -
  have "stdout r = q @ CHR 0x0A # concat (map (\<lambda>w. w @ [CHR 0x0A]) qs)"
    unfolding assms(3) by (rule owners_output)
  with trim_first_line [OF assms(1,2)] obtain t
    where t: "trim (stdout r) = q @ t" "t = [] \<or> hd t = CHR 0x0A"
    by metis
  have "takeWhile (\<lambda>x. x \<noteq> CHR 0x0A) (q @ t) = q"
    using assms(2) t(2) by (rule first_line)
  with split_head [of "q @ t" "CHR 0x0A"] obtain ls
    where ls: "split (trim (stdout r)) (CHR 0x0A) = q # ls"
    unfolding t(1) by auto
  from t(1) assms(1) have ne: "trim (stdout r) \<noteq> []" by simp
  show "checkPort_callback r = \<lparr>running = True, pid = Some q\<rparr>"
    unfolding checkPort_callback_def ls using ne assms(1) by simp
  show "http_checkPort_callback r = \<lparr>running = True, pid = Some q\<rparr>"
    unfolding http_checkPort_callback_def ls using ne by simp
qed

lemma running_has_pid:
  assumes "running (checkPort_callback r)"
  shows "\<exists>q. pid (checkPort_callback r) = Some q \<and> q \<noteq> []"
proof -
  from assms have ne: "trim (stdout r) \<noteq> []" by (simp add: checkPort_callback_def)
  then have "hd (trim (stdout r)) \<noteq> CHR 0x0A"
    using trim_starts_solid isSpace_newline by metis
  with ne have first: "takeWhile (\<lambda>x. x \<noteq> CHR 0x0A) (trim (stdout r)) \<noteq> []"
    by (simp add: takeWhile_eq_Nil_iff)
  obtain ls where "split (trim (stdout r)) (CHR 0x0A)
      = takeWhile (\<lambda>x. x \<noteq> CHR 0x0A) (trim (stdout r)) # ls"
    using split_head by blast
  with first show ?thesis by (simp add: checkPort_callback_def)
qed

lemma fst_checkPort: "fst (checkPort os p) = checkPort_callback (exec os (lsof_cmd p))"
  by (simp add: checkPort_def)

lemma checkPort_log: "snd (checkPort os p) = [Exec (lsof_cmd p)]"
  by (simp add: checkPort_def)

lemma commands_differ: "lsof_cmd p \<noteq> kill_cmd q"
proof
  assume "lsof_cmd p = kill_cmd q"
  then have "last (lsof_cmd p) = last (kill_cmd q)" by simp
  then show False by (simp add: lsof_cmd_def kill_cmd_def)
qed

subsection \<open>The sample inputs, evaluated\<close>

lemma quiet_os_fields:
  "home quiet_os = ''/home/dev''" "existsSync quiet_os d" "exec quiet_os c = no_output"
  "spawn quiet_os r = a_child"
  by (simp_all add: quiet_os_def every_path_def always_def)

lemma busy_os_fields:
  "home busy_os = ''/home/dev''" "existsSync busy_os d" "exec busy_os c = one_owner"
  "spawn busy_os r = a_child"
  by (simp_all add: busy_os_def quiet_os_def every_path_def always_def)

lemma bare_os_fields:
  "home bare_os = ''/home/dev''" "\<not> existsSync bare_os d" "exec bare_os c = no_output"
  by (simp_all add: bare_os_def quiet_os_def no_path_def always_def)

lemma jammed_os_fields:
  "home jammed_os = ''/home/dev''" "existsSync jammed_os d" "exec jammed_os c = no_output"
  "spawn jammed_os r = failed_child"
  by (simp_all add: jammed_os_def quiet_os_def every_path_def always_def)

lemma flaky_os_fields:
  "exec flaky_os c = failed_with_owner"
  by (simp add: flaky_os_def quiet_os_def always_def)

lemma walled_os_fields:
  "home walled_os = ''/home/dev''" "\<not> existsSync walled_os d" "exec walled_os c = one_owner"
  by (simp_all add: walled_os_def busy_os_def quiet_os_def no_path_def always_def)

lemma busy_probe:
  "checkPort_callback one_owner = \<lparr>running = True, pid = Some ''4242''\<rparr>"
  "http_checkPort_callback one_owner = \<lparr>running = True, pid = Some ''4242''\<rparr>"
  by (simp_all add: checkPort_callback_def http_checkPort_callback_def one_owner_def trim_def
      isSpace_def)

lemma quiet_probe:
  "checkPort_callback no_output = \<lparr>running = False, pid = None\<rparr>"
  "http_checkPort_callback no_output = \<lparr>running = False, pid = None\<rparr>"
  by (simp_all add: checkPort_callback_def http_checkPort_callback_def no_output_def trim_def)

lemma api_lookup:
  "findByPort [api_service] 4000 = Some api_service"
  "findByPort [api_service] 5000 = None"
  by (simp_all add: findByPort_def api_service_def)

lemma api_dir: "expandPath ''/home/dev'' (path api_service) = ''/home/dev/proj''"
  by (simp add: expandPath_def api_service_def)

lemma fleet_names:
  "map name (loadServices fleet_config) = [''web'', ''api'', ''shadow'']"
  "map name (filter (\<lambda>s. type s = ''frontend'') (loadServices fleet_config)) = [''web'']"
  by (simp_all add: fleet_config_def loadServices_def web_service_def api_service_def
      shadow_service_def)

subsection \<open>Service registry\<close>

lemma find_first_split:
  "find P xs = Some d \<longleftrightarrow>
     (\<exists>pre post. xs = pre @ d # post \<and> P d \<and> (\<forall>s\<in>set pre. \<not> P s))"
proof (induction xs)
  case Nil
  then show ?case by simp
next
  case (Cons x xs)
  show ?case
  proof (cases "P x")
    case True
    have "(\<exists>pre post. x # xs = pre @ d # post \<and> P d \<and> (\<forall>s\<in>set pre. \<not> P s)) \<longleftrightarrow> x = d"
    proof
      assume "\<exists>pre post. x # xs = pre @ d # post \<and> P d \<and> (\<forall>s\<in>set pre. \<not> P s)"
      then obtain pre post where h: "x # xs = pre @ d # post" "\<forall>s\<in>set pre. \<not> P s"
        by blast
      show "x = d"
      proof (cases pre)
        case Nil
        with h show ?thesis by simp
      next
        case (Cons y ys)
        with h True show ?thesis by auto
      qed
    next
      assume "x = d"
      with True have "x # xs = [] @ d # xs \<and> P d \<and> (\<forall>s\<in>set []. \<not> P s)" by simp
      then show "\<exists>pre post. x # xs = pre @ d # post \<and> P d \<and> (\<forall>s\<in>set pre. \<not> P s)"
        by blast
    qed
    with True show ?thesis by simp
  next
    case False
    have "(\<exists>pre post. x # xs = pre @ d # post \<and> P d \<and> (\<forall>s\<in>set pre. \<not> P s))
          \<longleftrightarrow> (\<exists>pre post. xs = pre @ d # post \<and> P d \<and> (\<forall>s\<in>set pre. \<not> P s))"
    proof
      assume "\<exists>pre post. x # xs = pre @ d # post \<and> P d \<and> (\<forall>s\<in>set pre. \<not> P s)"
      then obtain pre post
        where h: "x # xs = pre @ d # post" "P d" "\<forall>s\<in>set pre. \<not> P s"
        by blast
      show "\<exists>pre post. xs = pre @ d # post \<and> P d \<and> (\<forall>s\<in>set pre. \<not> P s)"
      proof (cases pre)
        case Nil
        with h False show ?thesis by simp
      next
        case (Cons y ys)
        with h have "xs = ys @ d # post \<and> P d \<and> (\<forall>s\<in>set ys. \<not> P s)" by simp
        then show ?thesis by blast
      qed
    next
      assume "\<exists>pre post. xs = pre @ d # post \<and> P d \<and> (\<forall>s\<in>set pre. \<not> P s)"
      then obtain pre post
        where h: "xs = pre @ d # post" "P d" "\<forall>s\<in>set pre. \<not> P s"
        by blast
      with False
      have "x # xs = (x # pre) @ d # post \<and> P d \<and> (\<forall>s\<in>set (x # pre). \<not> P s)"
        by simp
      then show "\<exists>pre post. x # xs = pre @ d # post \<and> P d \<and> (\<forall>s\<in>set pre. \<not> P s)"
        by blast
    qed
    with False Cons.IH show ?thesis by simp
  qed
qed

text \<open>
  Claim C5. \<open>findByPort\<close> is absent exactly when no descriptor has the port, and it is
  \<open>d\<close> exactly when \<open>d\<close> has the port and no descriptor before \<open>d\<close> in load order has it.
  Descriptors after \<open>d\<close> are not constrained: a later descriptor with the same port
  changes nothing, and no case of the lookup is an error.
\<close>

theorem findByPort_first:
  "(findByPort svcs p = None \<longleftrightarrow> (\<forall>s\<in>set svcs. port s \<noteq> p)) \<and>
   (findByPort svcs p = Some d \<longleftrightarrow>
      (\<exists>pre post. svcs = pre @ d # post \<and> port d = p \<and> (\<forall>s\<in>set pre. port s \<noteq> p)))"
  unfolding findByPort_def by (auto simp add: find_None_iff find_first_split)

text \<open>
  Two descriptors on port 4000, after one on port 3000: the lookup is the first of the two.
\<close>

theorem findByPort_first_witness:
  "findByPort [web_service, api_service, shadow_service] 4000 = Some api_service \<and>
   port shadow_service = 4000 \<and> findByPort [web_service, api_service, shadow_service] 5000 = None"
proof -
  have shape: "[web_service, api_service, shadow_service] = [web_service] @ api_service # [shadow_service]
      \<and> port api_service = 4000 \<and> (\<forall>s\<in>set [web_service]. port s \<noteq> 4000)"
    by (simp add: web_service_def api_service_def)
  have none: "\<forall>s\<in>set [web_service, api_service, shadow_service]. port s \<noteq> 5000"
    by (simp add: web_service_def api_service_def shadow_service_def)
  from shape have "\<exists>pre post. [web_service, api_service, shadow_service] = pre @ api_service # post
      \<and> port api_service = 4000 \<and> (\<forall>s\<in>set pre. port s \<noteq> 4000)"
    by blast
  with findByPort_first [of "[web_service, api_service, shadow_service]" 4000 api_service]
  have first: "findByPort [web_service, api_service, shadow_service] 4000 = Some api_service"
    by blast
  from none findByPort_first [of "[web_service, api_service, shadow_service]" 5000 api_service]
  have absent: "findByPort [web_service, api_service, shadow_service] 5000 = None"
    by blast
  from first absent show ?thesis by (simp add: shadow_service_def)
qed

lemma handlers_read_registry_only:
  assumes "loadServices cfg = loadServices cfg'"
  shows "startService cfg os later p = startService cfg' os later p"
    and "list_services cfg os arg = list_services cfg' os arg"
    and "check_port cfg os p = check_port cfg' os p"
    and "get_service_info cfg os p = get_service_info cfg' os p"
    and "quick_status cfg os = quick_status cfg' os"
  using assms
  by (simp_all add: list_services_def check_port_def startService_def
      get_service_info_def quick_status_def getAllServicesStatus_def)

lemma tools_read_registry_only:
  assumes "loadServices cfg = loadServices cfg'"
  shows "call_tool cfg os later call = call_tool cfg' os later call"
  by (cases call)
    (simp_all only: call_tool_def tool_call.case handlers_read_registry_only [OF assms])

text \<open>
  Claim C9. On the tool-call server a configuration file that cannot be read or parsed loads
  as the empty list. Every tool call then gives the reply and the actions it gives for a
  document without services; start reports "No service configured for port ..." and does
  nothing, and the listing is empty for every filter.
\<close>

theorem unreadable_config_is_empty:
  "loadServices (Unreadable e) = [] \<and> loadServices (Malformed e) = [] \<and>
   call_tool (Unreadable e) os later call = call_tool (Document \<lparr>services = []\<rparr>) os later call \<and>
   call_tool (Malformed e) os later call = call_tool (Document \<lparr>services = []\<rparr>) os later call \<and>
   startService (Unreadable e) os later p
     = (Failure (''No service configured for port '' @ toString p), []) \<and>
   startService (Malformed e) os later p
     = (Failure (''No service configured for port '' @ toString p), []) \<and>
   snd (fst (list_services (Unreadable e) os arg)) = [] \<and>
   snd (fst (list_services (Malformed e) os arg)) = []"
proof -
  have empty: "loadServices (Unreadable e) = []" "loadServices (Malformed e) = []"
    "loadServices (Document \<lparr>services = []\<rparr>) = []"
    by (simp_all add: loadServices_def)
  have tools: "call_tool (Unreadable e) os later call
      = call_tool (Document \<lparr>services = []\<rparr>) os later call"
    "call_tool (Malformed e) os later call
      = call_tool (Document \<lparr>services = []\<rparr>) os later call"
    by (rule tools_read_registry_only, simp only: empty)+
  have start: "startService (Unreadable e) os later p
     = (Failure (''No service configured for port '' @ toString p), [])"
    "startService (Malformed e) os later p
     = (Failure (''No service configured for port '' @ toString p), [])"
    by (simp_all add: startService_def empty findByPort_def)
  have listing: "snd (fst (list_services (Unreadable e) os arg)) = []"
    "snd (fst (list_services (Malformed e) os arg)) = []"
    by (simp_all add: list_services_def getAllServicesStatus_def empty Let_def)
  from empty tools start listing show ?thesis by simp
qed

text \<open>
  Claim C10. When the configuration file is read and written without an exception, the
  remove route replies with success and writes the document with the services filtered: no
  remaining descriptor has the given port, and the descriptors with another port are the
  same as before, in the same order. The other fields of the document are not changed.
\<close>

theorem delete_removes_port:
  "fst (delete_service (Document c) None p) = Response 200 SuccessBody \<and>
   snd (delete_service (Document c) None p)
     = Document (c\<lparr>services := filter (\<lambda>s. port s \<noteq> p) (services c)\<rparr>) \<and>
   (\<forall>s\<in>set (filter (\<lambda>s. port s \<noteq> p) (services c)). port s \<noteq> p) \<and>
   filter (\<lambda>s. port s \<noteq> p) (filter (\<lambda>s. port s \<noteq> p) (services c))
     = filter (\<lambda>s. port s \<noteq> p) (services c)"
  by (simp add: delete_service_def)

text \<open>
  The sample registry has two descriptors on port 4000: removing port 4000 removes both.
\<close>

theorem delete_removes_port_witness:
  "snd (delete_service fleet_config None 4000) = Document \<lparr>services = [web_service]\<rparr> \<and>
   port web_service \<noteq> 4000 \<and> port api_service = 4000 \<and> port shadow_service = 4000"
proof -
  have kept: "filter (\<lambda>s. port s \<noteq> 4000) [web_service, api_service, shadow_service]
      = [web_service]"
    by (simp add: web_service_def api_service_def shadow_service_def)
  have "snd (delete_service (Document \<lparr>services = [web_service, api_service, shadow_service]\<rparr>)
         None 4000)
      = Document (\<lparr>services = [web_service, api_service, shadow_service]\<rparr>
          \<lparr>services := filter (\<lambda>s. port s \<noteq> 4000)
             (services \<lparr>services = [web_service, api_service, shadow_service]\<rparr>)\<rparr>)"
    by (rule conjunct1 [OF conjunct2 [OF delete_removes_port]])
  then have removed: "snd (delete_service fleet_config None 4000)
      = Document \<lparr>services = [web_service]\<rparr>"
    unfolding fleet_config_def by (simp only: config.simps kept)
  have ports: "port web_service \<noteq> 4000 \<and> port api_service = 4000 \<and> port shadow_service = 4000"
    by (simp add: web_service_def api_service_def shadow_service_def)
  from removed ports show ?thesis by (intro conjI) simp_all
qed

subsection \<open>Port prober\<close>

text \<open>
  Claim C6, as amended. A probe is a total function of the outcome of the inspection
  command, on both servers, and the callback never reads its error argument: no error
  reaches the caller, and two outcomes with the same standard output give the same status.
  When the command prints nothing but white space (no listener, or a failure without output)
  the status is \<open>running = False\<close> without a pid. When the command prints one owner per
  line, the status is \<open>running = True\<close> with the pid of the first line.
\<close>

theorem checkPort_absorbs_failure:
  "((\<forall>c\<in>set (stdout (exec os (lsof_cmd p))). isSpace c) \<longrightarrow>
       fst (checkPort os p) = \<lparr>running = False, pid = None\<rparr> \<and>
       fst (http_checkPort os p) = \<lparr>running = False, pid = None\<rparr>) \<and>
   (stdout (exec os (lsof_cmd p)) = stdout (exec os' (lsof_cmd p)) \<longrightarrow>
       fst (checkPort os p) = fst (checkPort os' p) \<and>
       fst (http_checkPort os p) = fst (http_checkPort os' p)) \<and>
   (q \<noteq> [] \<and> (\<forall>c\<in>set q. isAscii c \<and> \<not> isSpace c) \<and>
    stdout (exec os (lsof_cmd p)) = concat (map (\<lambda>w. w @ [CHR 0x0A]) (q # qs)) \<longrightarrow>
       fst (checkPort os p) = \<lparr>running = True, pid = Some q\<rparr> \<and>
       fst (http_checkPort os p) = \<lparr>running = True, pid = Some q\<rparr>)"
proof (intro conjI impI)
  assume "\<forall>c\<in>set (stdout (exec os (lsof_cmd p))). isSpace c"
  then show "fst (checkPort os p) = \<lparr>running = False, pid = None\<rparr>"
    and "fst (http_checkPort os p) = \<lparr>running = False, pid = None\<rparr>"
    by (simp_all add: checkPort_def http_checkPort_def blank_status)
next
  assume "stdout (exec os (lsof_cmd p)) = stdout (exec os' (lsof_cmd p))"
  then show "fst (checkPort os p) = fst (checkPort os' p)"
    and "fst (http_checkPort os p) = fst (http_checkPort os' p)"
    by (simp_all add: checkPort_def http_checkPort_def checkPort_callback_def
        http_checkPort_callback_def)
next
  assume h: "q \<noteq> [] \<and> (\<forall>c\<in>set q. isAscii c \<and> \<not> isSpace c) \<and>
    stdout (exec os (lsof_cmd p)) = concat (map (\<lambda>w. w @ [CHR 0x0A]) (q # qs))"
  then have a: "q \<noteq> []" and b: "\<forall>c\<in>set q. \<not> isSpace c"
    and c: "stdout (exec os (lsof_cmd p)) = concat (map (\<lambda>w. w @ [CHR 0x0A]) (q # qs))"
    by blast+
  show "fst (checkPort os p) = \<lparr>running = True, pid = Some q\<rparr>"
    unfolding checkPort_def fst_conv by (rule owner_status(1) [OF a b c])
  show "fst (http_checkPort os p) = \<lparr>running = True, pid = Some q\<rparr>"
    unfolding http_checkPort_def fst_conv by (rule owner_status(2) [OF a b c])
qed

text \<open>
  The inspection command fails with no output: not running. It prints the owner 4242:
  running, with that pid.
\<close>

theorem checkPort_absorbs_failure_witness:
  "error (exec quiet_os (lsof_cmd 4000)) = Some ''Command failed: exit code 1'' \<and>
   fst (checkPort quiet_os 4000) = \<lparr>running = False, pid = None\<rparr> \<and>
   fst (http_checkPort quiet_os 4000) = \<lparr>running = False, pid = None\<rparr> \<and>
   fst (checkPort quiet_os 4000) = fst (checkPort clean_os 4000) \<and>
   fst (http_checkPort quiet_os 4000) = fst (http_checkPort clean_os 4000) \<and>
   fst (checkPort busy_os 4000) = \<lparr>running = True, pid = Some ''4242''\<rparr> \<and>
   fst (http_checkPort busy_os 4000) = \<lparr>running = True, pid = Some ''4242''\<rparr>"
proof -
  have blank: "\<forall>c\<in>set (stdout (exec quiet_os (lsof_cmd 4000))). isSpace c"
    by (simp add: quiet_os_def always_def no_output_def)
  have same: "stdout (exec quiet_os (lsof_cmd 4000)) = stdout (exec clean_os (lsof_cmd 4000))"
    by (simp add: quiet_os_def clean_os_def always_def no_output_def)
  have owner: "''4242'' \<noteq> [] \<and> (\<forall>c\<in>set ''4242''. isAscii c \<and> \<not> isSpace c) \<and>
    stdout (exec busy_os (lsof_cmd 4000)) = concat (map (\<lambda>w. w @ [CHR 0x0A]) [''4242''])"
    by (simp add: busy_os_def quiet_os_def always_def one_owner_def isSpace_def isAscii_def)
  have err: "error (exec quiet_os (lsof_cmd 4000)) = Some ''Command failed: exit code 1''"
    by (simp add: quiet_os_def always_def no_output_def)
  from checkPort_absorbs_failure [of quiet_os 4000 clean_os "''4242''" "[]"] blank same
  have one: "fst (checkPort quiet_os 4000) = \<lparr>running = False, pid = None\<rparr> \<and>
   fst (http_checkPort quiet_os 4000) = \<lparr>running = False, pid = None\<rparr> \<and>
   fst (checkPort quiet_os 4000) = fst (checkPort clean_os 4000) \<and>
   fst (http_checkPort quiet_os 4000) = fst (http_checkPort clean_os 4000)"
    by blast
  from checkPort_absorbs_failure [of busy_os 4000 busy_os "''4242''" "[]"] owner
  have two: "fst (checkPort busy_os 4000) = \<lparr>running = True, pid = Some ''4242''\<rparr> \<and>
   fst (http_checkPort busy_os 4000) = \<lparr>running = True, pid = Some ''4242''\<rparr>"
    by blast
  from err one two show ?thesis by blast
qed

text \<open>
  Claim C6 as stated fails when the inspection command fails after it has printed an owner:
  the error argument is set, and both probes report the port as running, with that owner.
\<close>

theorem checkPort_failure_counterexample:
  "error (exec flaky_os (lsof_cmd 4000)) = Some ''Command failed: lsof -i :4000 -t'' \<and>
   fst (checkPort flaky_os 4000) = \<lparr>running = True, pid = Some ''9''\<rparr> \<and>
   fst (http_checkPort flaky_os 4000) = \<lparr>running = True, pid = Some ''9''\<rparr>"
  by (simp add: checkPort_def http_checkPort_def flaky_os_fields failed_with_owner_def
      checkPort_callback_def http_checkPort_callback_def trim_def isSpace_def)

subsection \<open>Lifecycle controller: start\<close>

text \<open>
  Claim C7. On both servers, start on a port without a descriptor fails ("No service
  configured for port ...", respectively 404 "Service not found"), and start on a port whose
  descriptor has a directory that does not exist fails ("Directory not found: ...",
  respectively 500 with that message). In each case the list of actions is empty: nothing is
  launched. The HTTP server needs a configuration file that parses to get that far.
\<close>

theorem start_unknown_or_missing:
  "(findByPort (loadServices cfg) p = None \<longrightarrow>
      startService cfg os later p =
        (Failure (''No service configured for port '' @ toString p), [])) \<and>
   (findByPort (loadServices cfg) p = Some srv \<and>
    \<not> existsSync os (expandPath (home os) (path srv)) \<longrightarrow>
      startService cfg os later p =
        (Failure (''Directory not found: '' @ expandPath (home os) (path srv)), [])) \<and>
   (findByPort (services c) p = None \<longrightarrow>
      post_start (Document c) os procs p =
        (Response 404 (ErrorBody ''Service not found''), procs, [])) \<and>
   (findByPort (services c) p = Some srv \<and>
    \<not> existsSync os (expandPath (home os) (path srv)) \<longrightarrow>
      post_start (Document c) os procs p =
        (Response 500 (ErrorBody (''Directory not found: '' @ expandPath (home os) (path srv))),
         procs, []))"
  by (simp add: startService_def post_start_def http_loadServices_def http_startService_def)

text \<open>The sample registry on a machine without directories: ports 5000 and 4000.\<close>

theorem start_unknown_or_missing_witness:
  "startService api_config bare_os quiet_os 5000 =
     (Failure ''No service configured for port 5000'', []) \<and>
   startService api_config bare_os quiet_os 4000 =
     (Failure ''Directory not found: /home/dev/proj'', []) \<and>
   post_start api_config bare_os no_processes 5000 =
     (Response 404 (ErrorBody ''Service not found''), no_processes, []) \<and>
   post_start api_config bare_os no_processes 4000 =
     (Response 500 (ErrorBody ''Directory not found: /home/dev/proj''), no_processes, [])"
proof -
  have absent: "findByPort (loadServices api_config) 5000 = None"
    "findByPort (services \<lparr>services = [api_service]\<rparr>) 5000 = None"
    by (simp_all add: api_config_def loadServices_def api_lookup)
  have missing: "findByPort (loadServices api_config) 4000 = Some api_service \<and>
      \<not> existsSync bare_os (expandPath (home bare_os) (path api_service))"
    "findByPort (services \<lparr>services = [api_service]\<rparr>) 4000 = Some api_service \<and>
      \<not> existsSync bare_os (expandPath (home bare_os) (path api_service))"
    by (simp_all add: api_config_def loadServices_def api_lookup bare_os_fields)
  have five: "toString 5000 = ''5000''"
    by (simp add: toString_def digit_char_def)
  have dir: "expandPath (home bare_os) (path api_service) = ''/home/dev/proj''"
    by (simp add: bare_os_fields api_dir)
  from start_unknown_or_missing [of api_config 5000 bare_os quiet_os api_service
      "\<lparr>services = [api_service]\<rparr>" no_processes] absent
  have a: "startService api_config bare_os quiet_os 5000 =
     (Failure ''No service configured for port 5000'', []) \<and>
     post_start api_config bare_os no_processes 5000 =
     (Response 404 (ErrorBody ''Service not found''), no_processes, [])"
    by (simp add: five api_config_def)
  from start_unknown_or_missing [of api_config 4000 bare_os quiet_os api_service
      "\<lparr>services = [api_service]\<rparr>" no_processes] missing
  have b: "startService api_config bare_os quiet_os 4000 =
     (Failure ''Directory not found: /home/dev/proj'', []) \<and>
     post_start api_config bare_os no_processes 4000 =
     (Response 500 (ErrorBody ''Directory not found: /home/dev/proj''), no_processes, [])"
    by (simp add: dir api_config_def)
  from a b show ?thesis by blast
qed

text \<open>
  Claim C1, as amended. On the tool-call server, when the port is configured, the expanded
  directory of its descriptor exists and the probe reports a listener, \<^verbatim>\<open>startService\<close>
  fails with "Port ... already in use (pid: q)", where \<open>q\<close> is the pid the probe reports;
  its only action is the probe, so no process is launched.
\<close>

theorem start_bound_port:
  "findByPort (loadServices cfg) p = Some srv \<and>
   existsSync os (expandPath (home os) (path srv)) \<and>
   running (fst (checkPort os p)) \<longrightarrow>
     (\<exists>q. pid (fst (checkPort os p)) = Some q \<and>
          startService cfg os later p =
            (Failure (''Port '' @ toString p @ '' already in use (pid: '' @ q @ '')''),
             [Exec (lsof_cmd p)])) \<and>
     spawns (snd (startService cfg os later p)) = []"
proof (intro conjI impI)
  assume h: "findByPort (loadServices cfg) p = Some srv \<and>
    existsSync os (expandPath (home os) (path srv)) \<and> running (fst (checkPort os p))"
  then obtain q where q: "pid (fst (checkPort os p)) = Some q"
    using running_has_pid [of "exec os (lsof_cmd p)"] by (auto simp add: fst_checkPort)
  from h q have res: "startService cfg os later p =
             (Failure (''Port '' @ toString p @ '' already in use (pid: '' @ q @ '')''),
              [Exec (lsof_cmd p)])"
    by (simp add: startService_def checkPort_log)
  with q show "\<exists>q. pid (fst (checkPort os p)) = Some q \<and>
           startService cfg os later p =
             (Failure (''Port '' @ toString p @ '' already in use (pid: '' @ q @ '')''),
              [Exec (lsof_cmd p)])"
    by blast
  from res show "spawns (snd (startService cfg os later p)) = []" by simp
qed

text \<open>Port 4000 of the sample registry, bound by process 4242.\<close>

theorem start_bound_port_witness:
  "running (fst (checkPort busy_os 4000)) \<and>
   startService api_config busy_os quiet_os 4000 =
     (Failure ''Port 4000 already in use (pid: 4242)'', [Exec ''lsof -i :4000 -t'']) \<and>
   spawns (snd (startService api_config busy_os quiet_os 4000)) = []"
proof -
  have probe: "fst (checkPort busy_os 4000) = \<lparr>running = True, pid = Some ''4242''\<rparr>"
    by (simp add: fst_checkPort busy_os_fields busy_probe)
  have hyp: "findByPort (loadServices api_config) 4000 = Some api_service \<and>
    existsSync busy_os (expandPath (home busy_os) (path api_service)) \<and>
    running (fst (checkPort busy_os 4000))"
    by (simp add: probe api_config_def loadServices_def api_lookup busy_os_fields)
  from start_bound_port [of api_config 4000 api_service busy_os quiet_os] hyp
  show ?thesis
    by (simp add: probe lsof_cmd_def toString_4000)
qed

text \<open>
  Claim C1 as stated fails twice with port 4000 bound by process 4242. The start route of
  the HTTP server, which does not probe, launches the command of the service and replies 200
  with the pid of the child. On the tool-call server, when the directory of the service does
  not exist, the failure is "Directory not found", since the directory is checked before the
  probe.
\<close>

theorem start_bound_counterexample:
  "findByPort [api_service] 4000 = Some api_service \<and>
   running (fst (http_checkPort busy_os 4000)) \<and>
   fst (post_start api_config busy_os no_processes 4000) = Response 200 (StartedBody (Some 777)) \<and>
   snd (snd (post_start api_config busy_os no_processes 4000)) =
     [Spawn \<lparr>command = ''node'', args = [''server.js''], cwd = ''/home/dev/proj'',
             shell = True, detached = True, stdio = [''ignore'', ''pipe'', ''pipe''],
             env = (process_env busy_os)(''PORT'' \<mapsto> ''4000'')\<rparr>,
      SetTimeout 1000] \<and>
   running (fst (checkPort walled_os 4000)) \<and>
   startService api_config walled_os quiet_os 4000 =
     (Failure ''Directory not found: /home/dev/proj'', [])"
proof -
  have probe: "fst (http_checkPort busy_os 4000) = \<lparr>running = True, pid = Some ''4242''\<rparr>"
    by (simp add: http_checkPort_def busy_os_fields busy_probe)
  have started: "http_startService busy_os no_processes api_service =
     (Inr (Some 777),
      no_processes(4000 \<mapsto> (Some 777, ''api'', now busy_os)),
      [Spawn \<lparr>command = ''node'', args = [''server.js''], cwd = ''/home/dev/proj'',
              shell = True, detached = True, stdio = [''ignore'', ''pipe'', ''pipe''],
              env = (process_env busy_os)(''PORT'' \<mapsto> ''4000'')\<rparr>,
       SetTimeout 1000])"
    by (simp add: http_startService_def busy_os_fields api_dir a_child_def)
      (simp add: api_service_def toString_4000)
  have reply: "post_start api_config busy_os no_processes 4000 =
     (Response 200 (StartedBody (Some 777)),
      snd (http_startService busy_os no_processes api_service))"
    by (simp add: post_start_def api_config_def http_loadServices_def api_lookup started)
  have walled: "fst (checkPort walled_os 4000) = \<lparr>running = True, pid = Some ''4242''\<rparr>"
    by (simp add: fst_checkPort walled_os_fields busy_probe)
  have refused: "startService api_config walled_os quiet_os 4000 =
     (Failure ''Directory not found: /home/dev/proj'', [])"
    by (simp add: startService_def api_config_def loadServices_def api_lookup
        walled_os_fields api_dir)
  from probe started reply walled refused show ?thesis by (simp add: api_lookup)
qed

text \<open>
  Claim C8, as amended. The registry holds the one descriptor \<open>api_service\<close>. The start
  command splits into \<^verbatim>\<open>node\<close> and \<^verbatim>\<open>server.js\<close>, and \<open>api_launch\<close> is the call of
  \<^verbatim>\<open>spawn\<close> with these, the expanded directory as working directory and
  \<^verbatim>\<open>PORT=4000\<close> added to the environment. When the expanded directory exists, the probe
  reports no listener on port 4000, the call of \<^verbatim>\<open>spawn\<close> neither throws nor leads to
  an \<^verbatim>\<open>'error'\<close> event, and the probe after the delay reports no listener either,
  \<^verbatim>\<open>startService\<close> probes, launches, sets the timer of the delay, probes again, and
  returns success with \<^verbatim>\<open>started: false\<close> and the "initializing" message.
\<close>

theorem start_api_scenario:
  "split ''node server.js'' (CHR '' '') = [''node'', ''server.js''] \<and>
   api_launch os =
     \<lparr>command = ''node'', args = [''server.js''], cwd = home os @ ''/proj'',
      shell = True, detached = True, stdio = [''ignore'', ''ignore'', ''ignore''],
      env = (process_env os)(''PORT'' \<mapsto> ''4000'')\<rparr> \<and>
   (existsSync os (home os @ ''/proj'') \<and>
    \<not> running (fst (checkPort os 4000)) \<and>
    thrown (spawn os (api_launch os)) = None \<and>
    spawn_error (spawn os (api_launch os)) = None \<and>
    \<not> running (fst (checkPort later 4000)) \<longrightarrow>
      startService api_config os later 4000 =
        (StartSuccess ''api'' 4000 False
           ''Start command sent, but service may still be initializing'',
         [Exec ''lsof -i :4000 -t'', Spawn (api_launch os), SetTimeout 2000,
          Exec ''lsof -i :4000 -t'']))"
  by (simp add: startService_def api_config_def api_service_def loadServices_def
      findByPort_def expandPath_def checkPort_log lsof_cmd_def toString_4000 api_launch_def)

text \<open>The scenario on a machine where every directory exists and no port has a listener.\<close>

theorem start_api_scenario_witness:
  "existsSync quiet_os (home quiet_os @ ''/proj'') \<and>
   \<not> running (fst (checkPort quiet_os 4000)) \<and>
   spawn quiet_os (api_launch quiet_os) = a_child \<and>
   startService api_config quiet_os quiet_os 4000 =
     (StartSuccess ''api'' 4000 False
        ''Start command sent, but service may still be initializing'',
      [Exec ''lsof -i :4000 -t'',
       Spawn \<lparr>command = ''node'', args = [''server.js''], cwd = ''/home/dev/proj'',
              shell = True, detached = True, stdio = [''ignore'', ''ignore'', ''ignore''],
              env = (process_env quiet_os)(''PORT'' \<mapsto> ''4000'')\<rparr>,
       SetTimeout 2000,
       Exec ''lsof -i :4000 -t''])"
proof -
  have idle: "\<not> running (fst (checkPort quiet_os 4000))"
    by (simp add: fst_checkPort quiet_os_fields quiet_probe)
  have dir: "existsSync quiet_os (home quiet_os @ ''/proj'')"
    by (simp add: quiet_os_fields)
  have launched: "spawn quiet_os (api_launch quiet_os) = a_child"
    by (simp add: quiet_os_fields)
  have fine: "thrown (spawn quiet_os (api_launch quiet_os)) = None"
    "spawn_error (spawn quiet_os (api_launch quiet_os)) = None"
    by (simp_all add: launched a_child_def)
  have h: "home quiet_os = ''/home/dev''" by (simp add: quiet_os_fields)
  from start_api_scenario [of quiet_os quiet_os] idle dir fine launched show ?thesis
    by (simp add: h)
qed

text \<open>
  Claim C8 as stated fails twice with the same registry and no listener on port 4000. When
  the directory of the service does not exist, \<^verbatim>\<open>startService\<close> stops at the directory
  check of line 88, before any probe, and launches nothing. When the directory exists and
  the child emits an \<^verbatim>\<open>'error'\<close> event, the promise is never resolved: no result is
  returned and the port is not probed again.
\<close>

theorem start_api_counterexample:
  "loadServices api_config = [api_service] \<and>
   \<not> running (fst (checkPort bare_os 4000)) \<and>
   startService api_config bare_os bare_os 4000 =
     (Failure ''Directory not found: /home/dev/proj'', []) \<and>
   existsSync jammed_os (home jammed_os @ ''/proj'') \<and>
   \<not> running (fst (checkPort jammed_os 4000)) \<and>
   startService api_config jammed_os jammed_os 4000 =
     (Crashed ''spawn /bin/sh ENOTDIR'',
      [Exec ''lsof -i :4000 -t'', Spawn (api_launch jammed_os), SetTimeout 2000])"
proof -
  have idle: "\<not> running (fst (checkPort bare_os 4000))"
    "\<not> running (fst (checkPort jammed_os 4000))"
    by (simp_all add: fst_checkPort bare_os_fields jammed_os_fields quiet_probe)
  have refused: "startService api_config bare_os bare_os 4000 =
     (Failure ''Directory not found: /home/dev/proj'', [])"
    by (simp add: startService_def api_config_def loadServices_def api_lookup
        bare_os_fields api_dir)
  have dir: "existsSync jammed_os (home jammed_os @ ''/proj'')"
    by (simp add: jammed_os_fields)
  have crashed: "startService api_config jammed_os jammed_os 4000 =
     (Crashed ''spawn /bin/sh ENOTDIR'',
      [Exec ''lsof -i :4000 -t'', Spawn (api_launch jammed_os), SetTimeout 2000])"
    using idle(2)
    by (simp add: startService_def api_config_def loadServices_def api_lookup
        jammed_os_fields api_dir checkPort_log lsof_cmd_def toString_4000 api_launch_def
        failed_child_def)
      (simp add: api_service_def)
  from idle refused dir crashed show ?thesis
    by (simp add: api_config_def loadServices_def)
qed

subsection \<open>Lifecycle controller: stop\<close>

text \<open>
  Claim C2, as amended. On the tool-call server, \<^verbatim>\<open>stopService\<close> on a port whose probe
  reports no listener fails with "Nothing running on port ..." and its only action is the
  probe: the termination command is not issued.
\<close>

theorem stop_idle_port:
  "\<not> running (fst (checkPort os p)) \<longrightarrow>
     stopService os p = (Failure (''Nothing running on port '' @ toString p), [Exec (lsof_cmd p)]) \<and>
     Exec (kill_cmd p) \<notin> set (snd (stopService os p))"
  using commands_differ [of p p]
  by (auto simp add: stopService_def checkPort_log)

text \<open>Port 4000 with no listener.\<close>

theorem stop_idle_port_witness:
  "\<not> running (fst (checkPort quiet_os 4000)) \<and>
   stopService quiet_os 4000 =
     (Failure ''Nothing running on port 4000'', [Exec ''lsof -i :4000 -t''])"
proof -
  have idle: "\<not> running (fst (checkPort quiet_os 4000))"
    by (simp add: fst_checkPort quiet_os_fields quiet_probe)
  with stop_idle_port [of quiet_os 4000] show ?thesis
    by (simp add: lsof_cmd_def toString_4000)
qed

text \<open>
  Claim C2 as stated fails on the HTTP server, which does not probe: with no listener on
  port 4000, the stop route runs the termination command and replies 200 with success.
\<close>

theorem stop_idle_counterexample:
  "\<not> running (fst (http_checkPort quiet_os 4000)) \<and>
   fst (post_stop quiet_os no_processes 4000) = Response 200 SuccessBody \<and>
   snd (snd (post_stop quiet_os no_processes 4000)) = [Exec ''lsof -i :4000 -t | xargs kill -9 2>/dev/null'']"
  by (simp add: http_checkPort_def http_checkPort_callback_def quiet_os_def always_def
      no_output_def trim_def post_stop_def http_stopService_def kill_cmd_def toString_4000)

subsection \<open>Status aggregator\<close>

lemma narrowed_all: "snd (fst (list_services cfg os (Some ''all''))) = fst (getAllServicesStatus cfg os)"
  by (simp add: list_services_def)

lemma narrowed_running:
  "snd (fst (list_services cfg os (Some ''running'')))
     = filter (\<lambda>s. service_view.running s) (fst (getAllServicesStatus cfg os))"
  by (simp add: list_services_def)

lemma narrowed_stopped:
  "snd (fst (list_services cfg os (Some ''stopped'')))
     = filter (\<lambda>s. \<not> service_view.running s) (fst (getAllServicesStatus cfg os))"
  by (simp add: list_services_def)

lemma view_names:
  "map name (fst (getAllServicesStatus cfg os)) = map name (loadServices cfg)"
  by (simp add: getAllServicesStatus_def Let_def comp_def)

text \<open>
  Claim C3. For one registry and one state of the operating system, the listing with filter
  \<^verbatim>\<open>running\<close> holds the running views of the listing with filter \<^verbatim>\<open>all\<close>, in
  order, and the listing with filter \<^verbatim>\<open>stopped\<close> holds the others, in order. As
  multisets the two add up to the full listing (no omission, each view as often as it is
  listed), and no view is in both.
\<close>

theorem running_stopped_partition:
  "snd (fst (list_services cfg os (Some ''running'')))
     = filter (\<lambda>s. service_view.running s) (snd (fst (list_services cfg os (Some ''all'')))) \<and>
   snd (fst (list_services cfg os (Some ''stopped'')))
     = filter (\<lambda>s. \<not> service_view.running s) (snd (fst (list_services cfg os (Some ''all'')))) \<and>
   mset (snd (fst (list_services cfg os (Some ''running''))))
     + mset (snd (fst (list_services cfg os (Some ''stopped''))))
     = mset (snd (fst (list_services cfg os (Some ''all'')))) \<and>
   set (snd (fst (list_services cfg os (Some ''running''))))
     \<inter> set (snd (fst (list_services cfg os (Some ''stopped'')))) = {}"
  unfolding narrowed_all narrowed_running narrowed_stopped
  by auto

text \<open>
  Claim C4, as amended. With one of the three type tags of the handler (\<^verbatim>\<open>frontend\<close>,
  \<^verbatim>\<open>backend\<close>, \<^verbatim>\<open>api\<close>) as filter, the listing holds exactly the views whose type is
  the tag, which are the views of the descriptors with that type, in load order. With any
  filter that is neither one of these three nor \<^verbatim>\<open>running\<close> nor \<^verbatim>\<open>stopped\<close>, the type
  of a descriptor included, and with no filter, the listing is the one for \<^verbatim>\<open>all\<close>.
\<close>

theorem type_filter:
  "(f \<in> {''frontend'', ''backend'', ''api''} \<longrightarrow>
      snd (fst (list_services cfg os (Some f)))
        = filter (\<lambda>s. type s = f) (fst (getAllServicesStatus cfg os)) \<and>
      map name (snd (fst (list_services cfg os (Some f))))
        = map name (filter (\<lambda>s. type s = f) (loadServices cfg))) \<and>
   (f \<notin> {''running'', ''stopped'', ''frontend'', ''backend'', ''api''} \<longrightarrow>
      snd (fst (list_services cfg os (Some f))) = fst (getAllServicesStatus cfg os) \<and>
      snd (fst (list_services cfg os (Some f))) = snd (fst (list_services cfg os (Some ''all'')))) \<and>
   snd (fst (list_services cfg os None)) = snd (fst (list_services cfg os (Some ''all'')))"
  by (auto simp add: list_services_def getAllServicesStatus_def Let_def filter_map comp_def)

text \<open>
  The sample registry of three services: the tag \<^verbatim>\<open>frontend\<close> selects one, the value
  \<^verbatim>\<open>database\<close>, which is not one of the three tags, selects all.
\<close>

theorem type_filter_witness:
  "map name (snd (fst (list_services fleet_config quiet_os (Some ''frontend'')))) = [''web''] \<and>
   map name (snd (fst (list_services fleet_config quiet_os (Some ''database''))))
     = [''web'', ''api'', ''shadow''] \<and>
   snd (fst (list_services fleet_config quiet_os (Some ''database'')))
     = snd (fst (list_services fleet_config quiet_os (Some ''all'')))"
proof -
  have tag: "''frontend'' \<in> {''frontend'', ''backend'', ''api''}" by simp
  have other: "''database'' \<notin> {''running'', ''stopped'', ''frontend'', ''backend'', ''api''}"
    by simp
  note front = type_filter [of "''frontend''" fleet_config quiet_os]
  note stage = type_filter [of "''database''" fleet_config quiet_os]
  have "map name (snd (fst (list_services fleet_config quiet_os (Some ''frontend''))))
      = map name (filter (\<lambda>s. type s = ''frontend'') (loadServices fleet_config))"
    by (rule conjunct2 [OF mp [OF conjunct1 [OF front] tag]])
  then have a: "map name (snd (fst (list_services fleet_config quiet_os (Some ''frontend''))))
      = [''web'']"
    by (simp only: fleet_names)
  have b: "snd (fst (list_services fleet_config quiet_os (Some ''database'')))
      = fst (getAllServicesStatus fleet_config quiet_os)"
    by (rule conjunct1 [OF mp [OF conjunct1 [OF conjunct2 [OF stage]] other]])
  have c: "snd (fst (list_services fleet_config quiet_os (Some ''database'')))
     = snd (fst (list_services fleet_config quiet_os (Some ''all'')))"
    by (rule conjunct2 [OF mp [OF conjunct1 [OF conjunct2 [OF stage]] other]])
  have "map name (snd (fst (list_services fleet_config quiet_os (Some ''database''))))
     = [''web'', ''api'', ''shadow'']"
    unfolding b by (simp only: view_names fleet_names)
  with a c show ?thesis by (intro conjI)
qed

text \<open>
  Claim C4 as stated fails for a type outside the three tags of the handler: the filter
  \<^verbatim>\<open>database\<close> lists all three services of the sample registry, of which only
  \<open>shadow_service\<close> has that type.
\<close>

theorem type_filter_counterexample:
  "type web_service = ''frontend'' \<and> type api_service = ''backend'' \<and>
   type shadow_service = ''database'' \<and>
   map name (snd (fst (list_services fleet_config quiet_os (Some ''database''))))
     = [''web'', ''api'', ''shadow'']"
proof -
  have "snd (fst (list_services fleet_config quiet_os (Some ''database'')))
      = fst (getAllServicesStatus fleet_config quiet_os)"
    by (simp add: list_services_def)
  then have "map name (snd (fst (list_services fleet_config quiet_os (Some ''database''))))
     = [''web'', ''api'', ''shadow'']"
    by (simp only: view_names fleet_names)
  then show ?thesis
    by (simp add: web_service_def api_service_def shadow_service_def)
qed

end
